theory Spec2Isabelle
  imports Complex_Main
begin

section \<open>The hotel booking system: data model\<close>

text \<open>
  The program keeps its data in an SQLite file with the tables Rooms, Bookings and
  Payments (\<^verbatim>\<open>create_tables\<close>). A table is modelled as the list of its rows in
  rowid order, a row as a record of its columns. Every function of the source opens the
  database, works on it and commits; the model passes the database in and returns the
  updated one.

  A calendar date is modelled by its proleptic Gregorian ordinal
  (\<^verbatim>\<open>date.toordinal()\<close>): Python compares dates as it compares their ordinals, and
  \<^verbatim>\<open>(end - start).days\<close> is the difference of the ordinals. The source stores a date
  as \<^verbatim>\<open>isoformat()\<close> text and reads it back with \<^verbatim>\<open>strptime(..., "%Y-%m-%d")\<close>,
  which returns the date that was stored; the model keeps the date itself in the row.

  The columns \<^verbatim>\<open>created_at\<close> and \<^verbatim>\<open>payment_date\<close> (wall-clock timestamps that only
  order the listings) are left out. Columns of SQL type TEXT are strings, as in the source.
  An amount of money is a Python float in the source and a real number here; the functions
  below store and compare amounts, and the one product they form (nights times price) is
  taken without rounding.
\<close>

type_synonym date = int

text \<open>Table Rooms. The column \<^verbatim>\<open>status\<close> is the field \<open>room_status\<close>.\<close>

record room =
  room_id :: int
  room_number :: string
  room_type :: string
  price_per_night :: real
  room_status :: string
  description :: string

text \<open>Table Bookings. The column \<^verbatim>\<open>room_id\<close> is the field \<open>booked_room\<close>.\<close>

record booking =
  booking_id :: int
  customer_id :: int
  booked_room :: int
  check_in :: date
  check_out :: date
  status :: string

text \<open>Table Payments. The column \<^verbatim>\<open>booking_id\<close> is the field \<open>paid_booking\<close>.\<close>

record payment =
  payment_id :: int
  paid_booking :: int
  amount :: real
  payment_mode :: string

text \<open>
  The database. \<open>bookings_seq\<close> and \<open>payments_seq\<close> are the rows of
  \<^verbatim>\<open>sqlite_sequence\<close> that SQLite keeps for an \<^verbatim>\<open>AUTOINCREMENT\<close> key: the largest
  rowid the table has ever held.
\<close>

record hotel_db =
  rooms :: "room list"
  bookings :: "booking list"
  payments :: "payment list"
  bookings_seq :: int
  payments_seq :: int

text \<open>
  What a handler of the user interface ends with: \<^verbatim>\<open>messagebox.showerror\<close> or an
  uncaught exception (\<open>Failed\<close>), \<^verbatim>\<open>messagebox.showinfo\<close> (\<open>Noticed\<close>), going on to the
  next step with a value (\<open>Proceed\<close>), or returning without a message (\<open>Dismissed\<close>).
\<close>

datatype failure =
    Check_out_must_be_after_check_in  \<comment> \<open>"Check-out must be after check-in date"\<close>
  | Please_select_a_room              \<comment> \<open>"Please select a room to book"\<close>
  | Room_no_longer_available          \<comment> \<open>"Room no longer available. Please search again."\<close>
  | Please_select_a_booking           \<comment> \<open>"Please select a booking"\<close>
  | Please_select_a_payment_method    \<comment> \<open>"Please select a payment method"\<close>
  | Please_select_a_status            \<comment> \<open>"Please select a status"\<close>
  | TypeError                         \<comment> \<open>subscripting the \<^verbatim>\<open>None\<close> that \<^verbatim>\<open>fetchone()\<close> returned\<close>

datatype notice =
    No_rooms_available                \<comment> \<open>"No rooms available for selected dates and type"\<close>
  | Booking_already_paid              \<comment> \<open>"This booking is already paid"\<close>
  | Cannot_pay_for_cancelled_booking  \<comment> \<open>"Cannot pay for cancelled booking"\<close>
  | Payment_successful                \<comment> \<open>"Payment successful! ..."\<close>
  | Booking_is_already_cancelled      \<comment> \<open>"Booking is already cancelled"\<close>
  | Booking_cancelled_successfully    \<comment> \<open>"Booking cancelled successfully"\<close>
  | Status_updated_successfully       \<comment> \<open>"Status updated successfully"\<close>

datatype 'a outcome = Failed failure | Noticed notice | Proceed 'a | Dismissed

section \<open>Helpers and business logic\<close>

text \<open>\<^verbatim>\<open>return not (a_end <= b_start or b_end <= a_start)\<close>\<close>

definition dates_overlap :: "date \<Rightarrow> date \<Rightarrow> date \<Rightarrow> date \<Rightarrow> bool" where
  "dates_overlap a_start a_end b_start b_end = (\<not> (a_end \<le> b_start \<or> b_end \<le> a_start))"

text \<open>
  \<^verbatim>\<open>SELECT * FROM Bookings WHERE room_id = ? AND status IN ('Pending', 'Confirmed')\<close>
\<close>

definition select_active_bookings :: "hotel_db \<Rightarrow> int \<Rightarrow> booking list" where
  "select_active_bookings db rid =
     filter (\<lambda>b. booked_room b = rid \<and> (status b = ''Pending'' \<or> status b = ''Confirmed''))
       (bookings db)"

text \<open>The loop of \<^verbatim>\<open>check_availability\<close> over the fetched rows, with its early return.\<close>

fun scan_rows :: "booking list \<Rightarrow> date \<Rightarrow> date \<Rightarrow> bool" where
  "scan_rows [] ci co = True"
| "scan_rows (r # rows) ci co =
     (if dates_overlap ci co (check_in r) (check_out r) then False else scan_rows rows ci co)"

definition check_availability :: "hotel_db \<Rightarrow> int \<Rightarrow> date \<Rightarrow> date \<Rightarrow> bool" where
  "check_availability db rid ci co = scan_rows (select_active_bookings db rid) ci co"

text \<open>
  The two queries of \<^verbatim>\<open>find_available_rooms\<close>. The parameter \<^verbatim>\<open>room_type\<close> defaults
  to \<^verbatim>\<open>None\<close>; the test \<^verbatim>\<open>room_type and room_type != "All"\<close> is false for \<^verbatim>\<open>None\<close>,
  for the empty string and for \<^verbatim>\<open>"All"\<close>.
\<close>

definition select_rooms :: "hotel_db \<Rightarrow> string option \<Rightarrow> room list" where
  "select_rooms db rt =
     (case rt of
        None \<Rightarrow> filter (\<lambda>r. room_status r \<noteq> ''Maintenance'') (rooms db)
      | Some t \<Rightarrow>
          if t \<noteq> [] \<and> t \<noteq> ''All''
          then filter (\<lambda>r. room_status r \<noteq> ''Maintenance'' \<and> room_type r = t) (rooms db)
          else filter (\<lambda>r. room_status r \<noteq> ''Maintenance'') (rooms db))"

text \<open>The loop of \<^verbatim>\<open>find_available_rooms\<close>: the rows that pass, in the order fetched.\<close>

fun collect_available :: "hotel_db \<Rightarrow> room list \<Rightarrow> date \<Rightarrow> date \<Rightarrow> room list" where
  "collect_available db [] ci co = []"
| "collect_available db (r # rs) ci co =
     (if check_availability db (room_id r) ci co
      then r # collect_available db rs ci co
      else collect_available db rs ci co)"

definition find_available_rooms :: "hotel_db \<Rightarrow> date \<Rightarrow> date \<Rightarrow> string option \<Rightarrow> room list" where
  "find_available_rooms db ci co rt = collect_available db (select_rooms db rt) ci co"

text \<open>
  The rowid SQLite gives a new row of an \<^verbatim>\<open>AUTOINCREMENT\<close> table: one more than the
  largest rowid the table holds or has ever held.
\<close>

definition next_rowid :: "int \<Rightarrow> int list \<Rightarrow> int" where
  "next_rowid seq ids = 1 + fold max ids seq"

text \<open>
  \<^verbatim>\<open>create_booking\<close>: one INSERT with status \<^verbatim>\<open>"Pending"\<close>, and \<^verbatim>\<open>lastrowid\<close>
  returned. The connection of \<^verbatim>\<open>get_db\<close> does not switch foreign keys on, so SQLite
  does not look the room or the customer up.
\<close>

definition create_booking :: "hotel_db \<Rightarrow> int \<Rightarrow> int \<Rightarrow> date \<Rightarrow> date \<Rightarrow> hotel_db \<times> int" where
  "create_booking db cust rid ci co =
     (let bid = next_rowid (bookings_seq db) (map booking_id (bookings db))
      in (db\<lparr>bookings := bookings db @
                [\<lparr>booking_id = bid, customer_id = cust, booked_room = rid,
                  check_in = ci, check_out = co, status = ''Pending''\<rparr>],
              bookings_seq := bid\<rparr>,
          bid))"

text \<open>\<^verbatim>\<open>UPDATE Bookings SET status = ? WHERE booking_id = ?\<close>\<close>

definition update_booking_status :: "booking list \<Rightarrow> int \<Rightarrow> string \<Rightarrow> booking list" where
  "update_booking_status rows bid st =
     map (\<lambda>b. if booking_id b = bid then b\<lparr>status := st\<rparr> else b) rows"

text \<open>\<^verbatim>\<open>record_payment\<close>: one INSERT into Payments, one UPDATE of Bookings, no test.\<close>

definition record_payment :: "hotel_db \<Rightarrow> int \<Rightarrow> real \<Rightarrow> string \<Rightarrow> hotel_db" where
  "record_payment db bid amt mode =
     (let pid = next_rowid (payments_seq db) (map payment_id (payments db))
      in db\<lparr>payments := payments db @
               [\<lparr>payment_id = pid, paid_booking = bid, amount = amt, payment_mode = mode\<rparr>],
             payments_seq := pid,
             bookings := update_booking_status (bookings db) bid ''Confirmed''\<rparr>)"

section \<open>The handlers of the user interface\<close>

text \<open>
  \<^verbatim>\<open>search\<close> (the guest's and the customer's are the same up to the columns shown):
  the dates of the two date fields, the room type of the combo box.
\<close>

definition search :: "hotel_db \<Rightarrow> date \<Rightarrow> date \<Rightarrow> string \<Rightarrow> room list outcome" where
  "search db start end rt =
     (if end \<le> start then Failed Check_out_must_be_after_check_in
      else let found = find_available_rooms db start end (Some rt)
           in if found = [] then Noticed No_rooms_available else Proceed found)"

text \<open>
  \<^verbatim>\<open>book_selected\<close>: \<open>sel\<close> is the selected row of the result list (its item id is the
  room id), \<open>start\<close> and \<open>end\<close> are the dates the last search left on the list. On the way
  to the confirmation dialog it returns the new booking id and the total to pay. The
  booking is committed before the room's price is read.
\<close>

definition book_selected ::
  "hotel_db \<Rightarrow> int \<Rightarrow> int option \<Rightarrow> date \<Rightarrow> date \<Rightarrow> hotel_db \<times> (int \<times> real) outcome" where
  "book_selected db cust sel start end =
     (case sel of
        None \<Rightarrow> (db, Failed Please_select_a_room)
      | Some rid \<Rightarrow>
          if \<not> check_availability db rid start end
          then (db, Failed Room_no_longer_available)
          else
            (case create_booking db cust rid start end of
               (db', bid) \<Rightarrow>
                 (case find (\<lambda>r. room_id r = rid) (rooms db') of
                    None \<Rightarrow> (db', Failed TypeError)
                  | Some r \<Rightarrow> (db', Proceed (bid, price_per_night r * real_of_int (end - start))))))"

text \<open>
  \<^verbatim>\<open>pay_pending\<close>: \<open>sel\<close> holds the booking id, the status and the payment status of the
  selected row of "My Bookings". The query joins the booking with its room.
\<close>

definition pay_pending ::
  "hotel_db \<Rightarrow> (int \<times> string \<times> string) option \<Rightarrow> (int \<times> real) outcome" where
  "pay_pending db sel =
     (case sel of
        None \<Rightarrow> Failed Please_select_a_booking
      | Some (bid, st, payment_status) \<Rightarrow>
          if payment_status = ''Paid'' then Noticed Booking_already_paid
          else if st = ''Cancelled'' then Noticed Cannot_pay_for_cancelled_booking
          else
            (case find (\<lambda>b. booking_id b = bid) (bookings db) of
               None \<Rightarrow> Failed TypeError
             | Some b \<Rightarrow>
                 (case find (\<lambda>r. room_id r = booked_room b) (rooms db) of
                    None \<Rightarrow> Failed TypeError
                  | Some r \<Rightarrow>
                      Proceed (bid, real_of_int (check_out b - check_in b) * price_per_night r))))"

text \<open>\<^verbatim>\<open>do_pay\<close> of the payment window: \<open>mode\<close> is the radio button chosen, empty if none.\<close>

definition do_pay :: "hotel_db \<Rightarrow> int \<Rightarrow> real \<Rightarrow> string \<Rightarrow> hotel_db \<times> unit outcome" where
  "do_pay db bid amt mode =
     (if mode = [] then (db, Failed Please_select_a_payment_method)
      else (record_payment db bid amt mode, Noticed Payment_successful))"

text \<open>
  \<^verbatim>\<open>cancel_booking\<close>: \<open>sel\<close> holds the booking id and the status of the selected row,
  \<open>confirm\<close> is the answer to the yes/no dialog.
\<close>

definition cancel_booking ::
  "hotel_db \<Rightarrow> (int \<times> string) option \<Rightarrow> bool \<Rightarrow> hotel_db \<times> unit outcome" where
  "cancel_booking db sel confirm =
     (case sel of
        None \<Rightarrow> (db, Failed Please_select_a_booking)
      | Some (bid, st) \<Rightarrow>
          if st = ''Cancelled'' then (db, Noticed Booking_is_already_cancelled)
          else if confirm
          then (db\<lparr>bookings := update_booking_status (bookings db) bid ''Cancelled''\<rparr>,
                Noticed Booking_cancelled_successfully)
          else (db, Dismissed))"

text \<open>
  \<^verbatim>\<open>set_status\<close> with its \<^verbatim>\<open>update\<close>: \<open>sel\<close> is the booking id of the selected row of
  "All Bookings", \<open>new_status\<close> the radio button chosen among Pending, Confirmed, Completed
  and Cancelled, empty if none.
\<close>

definition set_status :: "hotel_db \<Rightarrow> int option \<Rightarrow> string \<Rightarrow> hotel_db \<times> unit outcome" where
  "set_status db sel new_status =
     (case sel of
        None \<Rightarrow> (db, Failed Please_select_a_booking)
      | Some bid \<Rightarrow>
          if new_status = [] then (db, Failed Please_select_a_status)
          else (db\<lparr>bookings := update_booking_status (bookings db) bid new_status\<rparr>,
                Noticed Status_updated_successfully))"

section \<open>Notions of the specification\<close>

text \<open>The status a listing shows for a booking id: that of the row with this key.\<close>

definition shown_status :: "hotel_db \<Rightarrow> int \<Rightarrow> string option" where
  "shown_status db bid = map_option status (find (\<lambda>b. booking_id b = bid) (bookings db))"

text \<open>An active booking is one whose status is Pending or Confirmed.\<close>

definition active :: "booking \<Rightarrow> bool" where
  "active b = (status b = ''Pending'' \<or> status b = ''Confirmed'')"

text \<open>Two bookings conflict when both are active, on the same room, and their stays overlap.\<close>

definition conflicting :: "booking \<Rightarrow> booking \<Rightarrow> bool" where
  "conflicting a b =
     (booked_room a = booked_room b \<and> active a \<and> active b \<and>
      dates_overlap (check_in a) (check_out a) (check_in b) (check_out b))"

text \<open>No two rows of the table conflict: every row is compared with all the rows after it.\<close>

fun no_double_booking :: "booking list \<Rightarrow> bool" where
  "no_double_booking [] = True"
| "no_double_booking (b # bs) = (list_all (\<lambda>c. \<not> conflicting b c) bs \<and> no_double_booking bs)"

text \<open>
  \<^verbatim>\<open>book_selected\<close> reaches the database twice before its booking is stored:
  \<^verbatim>\<open>check_availability\<close> opens a connection, reads and closes it; \<^verbatim>\<open>create_booking\<close>
  opens another, inserts and commits. Nothing holds the database between the two (no
  transaction spans them, and the table has no constraint on rooms and dates), so what
  other runs of the handler on the same file commit may fall in between. A run of the
  handler is a request (customer, room, dates); its two accesses are the events
  \<open>Check\<close> and \<open>Insert\<close>, each naming the request by its position in the list of requests.
  The state is the database and the requests that have passed their check and have not
  inserted yet. A request whose check fails ends there, and its \<open>Insert\<close> does nothing.
\<close>

type_synonym request = "int \<times> int \<times> date \<times> date"

datatype event = Check nat | Insert nat

fun step :: "request list \<Rightarrow> hotel_db \<times> nat list \<Rightarrow> event \<Rightarrow> hotel_db \<times> nat list" where
  "step reqs (db, passed) (Check i) =
     (if i < length reqs
      then (case reqs ! i of
              (cust, rid, start, end) \<Rightarrow>
                if check_availability db rid start end then (db, i # removeAll i passed)
                else (db, removeAll i passed))
      else (db, passed))"
| "step reqs (db, passed) (Insert i) =
     (if i < length reqs \<and> i \<in> set passed
      then (case reqs ! i of
              (cust, rid, start, end) \<Rightarrow>
                (fst (create_booking db cust rid start end), removeAll i passed))
      else (db, passed))"

fun run :: "request list \<Rightarrow> hotel_db \<times> nat list \<Rightarrow> event list \<Rightarrow> hotel_db \<times> nat list" where
  "run reqs st [] = st"
| "run reqs st (ev # evs) = run reqs (step reqs st ev) evs"

text \<open>
  A schedule in which no request inserts on a check that another insert has followed:
  \<open>clean\<close> lists the requests checked since the last insert, and an insert is allowed to
  a request among them only.
\<close>

fun exclusive :: "nat list \<Rightarrow> event list \<Rightarrow> bool" where
  "exclusive clean [] = True"
| "exclusive clean (Check i # evs) = exclusive (i # clean) evs"
| "exclusive clean (Insert i # evs) = (i \<in> set clean \<and> exclusive [] evs)"

text \<open>The requests \<open>ns\<close> handled one after the other, each check followed by its insert.\<close>

fun serial :: "nat list \<Rightarrow> event list" where
  "serial [] = []"
| "serial (n # ns) = Check n # Insert n # serial ns"

text \<open>
  What an exclusive schedule keeps true: the table has no double booking, and every
  request that has passed its check since the last insert would still pass it.
\<close>

definition still_available :: "request list \<Rightarrow> nat list \<Rightarrow> hotel_db \<times> nat list \<Rightarrow> bool" where
  "still_available reqs clean st =
     (no_double_booking (bookings (fst st)) \<and>
      list_all (\<lambda>i. i \<in> set clean \<longrightarrow> i < length reqs \<longrightarrow>
                  (case reqs ! i of
                     (cust, rid, start, end) \<Rightarrow> check_availability (fst st) rid start end))
        (snd st))"

text \<open>The database after \<^verbatim>\<open>create_tables\<close>, and after \<^verbatim>\<open>seed_data\<close> has filled Rooms.\<close>

definition empty_db :: hotel_db where
  "empty_db = \<lparr>rooms = [], bookings = [], payments = [], bookings_seq = 0, payments_seq = 0\<rparr>"

definition seed_rooms :: "room list" where
  "seed_rooms =
     [\<lparr>room_id = 1, room_number = ''101'', room_type = ''Single'', price_per_night = 1500,
       room_status = ''Available'', description = ''Cozy single bed with AC and WiFi''\<rparr>,
      \<lparr>room_id = 2, room_number = ''102'', room_type = ''Double'', price_per_night = 2500,
       room_status = ''Available'', description = ''Double bed with sea view and balcony''\<rparr>,
      \<lparr>room_id = 3, room_number = ''103'', room_type = ''Single'', price_per_night = 1600,
       room_status = ''Available'', description = ''Single bed with garden view''\<rparr>,
      \<lparr>room_id = 4, room_number = ''201'', room_type = ''Suite'', price_per_night = 5000,
       room_status = ''Available'', description = ''Luxury suite with living area and kitchen''\<rparr>,
      \<lparr>room_id = 5, room_number = ''202'', room_type = ''Double'', price_per_night = 2600,
       room_status = ''Available'', description = ''Double bed with city view and balcony''\<rparr>,
      \<lparr>room_id = 6, room_number = ''203'', room_type = ''Suite'', price_per_night = 4800,
       room_status = ''Available'', description = ''Executive suite with workspace''\<rparr>,
      \<lparr>room_id = 7, room_number = ''301'', room_type = ''Double'', price_per_night = 2400,
       room_status = ''Available'', description = ''Double bed with pool view''\<rparr>,
      \<lparr>room_id = 8, room_number = ''302'', room_type = ''Single'', price_per_night = 1550,
       room_status = ''Available'', description = ''Compact single room with all amenities''\<rparr>]"

definition seeded_db :: hotel_db where
  "seeded_db = empty_db\<lparr>rooms := seed_rooms\<rparr>"

text \<open>
  Room 101 (id 1) booked by customer 7 from 2024-06-01 to 2024-06-05 (ordinals 739038 and
  739042), in each of the four statuses.
\<close>

definition stay :: "string \<Rightarrow> booking" where
  "stay st = \<lparr>booking_id = 1, customer_id = 7, booked_room = 1,
              check_in = 739038, check_out = 739042, status = st\<rparr>"

definition booked_db :: "string \<Rightarrow> hotel_db" where
  "booked_db st = seeded_db\<lparr>bookings := [stay st], bookings_seq := 1\<rparr>"

section \<open>Date-range arithmetic\<close>

text \<open>
  C5: \<^verbatim>\<open>dates_overlap\<close> returns exactly NOT (aEnd <= bStart OR bEnd <= aStart) for
  every four dates (it is a total function: nothing is required of the arguments). Two
  adjacent half-open intervals, the end of one being the start of the other, do not
  overlap, in either order; two intervals that share a day do overlap.
\<close>

theorem dates_overlap_spec:
  "dates_overlap a_start a_end b_start b_end = (\<not> (a_end \<le> b_start \<or> b_end \<le> a_start))
   \<and> \<not> dates_overlap a_start m m b_end
   \<and> \<not> dates_overlap m a_end b_start m
   \<and> (a_start \<le> d \<and> d < a_end \<and> b_start \<le> d \<and> d < b_end
        \<longrightarrow> dates_overlap a_start a_end b_start b_end)"
  by (auto simp: dates_overlap_def)

theorem dates_overlap_spec_witness:
  "\<not> dates_overlap 739038 739042 739042 739045
   \<and> dates_overlap 739038 739042 739041 739043"
  using dates_overlap_spec [of 739038 739042 739041 739043 739042 739041]
    dates_overlap_spec [of 739038 739042 739042 739045 739042 739042]
  by simp

text \<open>
  C6: \<^verbatim>\<open>dates_overlap\<close> is symmetric in its two intervals, and an interval whose end
  is strictly after its start overlaps itself.
\<close>

theorem dates_overlap_symmetric_reflexive:
  "dates_overlap a_start a_end b_start b_end = dates_overlap b_start b_end a_start a_end
   \<and> (a_start < a_end \<longrightarrow> dates_overlap a_start a_end a_start a_end)"
  by (auto simp: dates_overlap_def)

theorem dates_overlap_symmetric_reflexive_witness:
  "dates_overlap 739038 739042 739041 739043 = dates_overlap 739041 739043 739038 739042
   \<and> dates_overlap 739038 739042 739038 739042"
  using dates_overlap_symmetric_reflexive [of 739038 739042 739041 739043]
  by simp

section \<open>Facts about the queries and updates\<close>

lemmas ex_defs = booked_db_def stay_def seeded_db_def seed_rooms_def empty_db_def

lemma scan_rows_iff:
  "scan_rows rows ci co = (\<not> (\<exists>r\<in>set rows. dates_overlap ci co (check_in r) (check_out r)))"
  by (induction rows) auto

lemma check_availability_iff:
  "check_availability db rid ci co =
     (\<not> (\<exists>b\<in>set (bookings db).
            booked_room b = rid \<and> (status b = ''Pending'' \<or> status b = ''Confirmed'') \<and>
            dates_overlap ci co (check_in b) (check_out b)))"
  by (auto simp: check_availability_def select_active_bookings_def scan_rows_iff)

lemma collect_available_filter:
  "collect_available db rs ci co = filter (\<lambda>r. check_availability db (room_id r) ci co) rs"
  by (induction rs) auto


lemma find_updated:
  "find (\<lambda>b. booking_id b = bid) (update_booking_status rows bid st) =
     map_option (\<lambda>b. b\<lparr>status := st\<rparr>) (find (\<lambda>b. booking_id b = bid) rows)"
  by (induction rows) (auto simp: update_booking_status_def)

lemma shown_status_bookings:
  "bookings db' = update_booking_status (bookings db) bid st \<Longrightarrow>
   shown_status db' bid = map_option (\<lambda>_. st) (shown_status db bid)"
  by (simp add: shown_status_def find_updated option.map_comp comp_def)

lemma updated_rows_status:
  "list_all (\<lambda>b. booking_id b = bid \<longrightarrow> status b = st) (update_booking_status rows bid st)"
  by (induction rows) (simp_all add: update_booking_status_def)

lemma updated_other_rows:
  "filter (\<lambda>b. booking_id b \<noteq> bid) (update_booking_status rows bid st) =
     filter (\<lambda>b. booking_id b \<noteq> bid) rows"
  by (induction rows) (auto simp: update_booking_status_def)

lemma updated_keys:
  "map booking_id (update_booking_status rows bid st) = map booking_id rows"
  by (induction rows) (simp_all add: update_booking_status_def)

lemma fold_max_ge: "seq \<le> fold max ids (seq::int)"
proof (induction ids arbitrary: seq)
  case Nil
  show ?case by simp
next
  case (Cons a ids)
  have "seq \<le> max a seq" by simp
  also have "\<dots> \<le> fold max ids (max a seq)" by (rule Cons.IH)
  finally show ?case by simp
qed

lemma fold_max_bound: "i \<in> set ids \<Longrightarrow> i \<le> fold max ids (seq::int)"
proof (induction ids arbitrary: seq)
  case Nil
  then show ?case by simp
next
  case (Cons a ids)
  have step: "fold max (a # ids) seq = fold max ids (max a seq)" by simp
  show ?case
  proof (cases "i = a")
    case True
    have "a \<le> max a seq" by (rule max.cobounded1)
    also have "\<dots> \<le> fold max ids (max a seq)" by (rule fold_max_ge)
    finally show ?thesis unfolding step True .
  next
    case False
    with Cons.prems have "i \<in> set ids" by simp
    then have "i \<le> fold max ids (max a seq)" by (rule Cons.IH)
    then show ?thesis unfolding step .
  qed
qed

lemma next_rowid_fresh: "i \<in> set ids \<Longrightarrow> i < next_rowid seq ids"
  using fold_max_bound [of i ids seq] by (simp add: next_rowid_def)

section \<open>Availability\<close>

text \<open>
  C7: \<^verbatim>\<open>check_availability\<close> looks at exactly the bookings of the room whose status is
  Pending or Confirmed, and returns false if and only if at least one of them overlaps the
  half-open interval from \<open>ci\<close> to \<open>co\<close>; otherwise it returns true.
\<close>

theorem check_availability_spec:
  "check_availability db rid ci co =
     (\<not> (\<exists>b\<in>set (bookings db).
            booked_room b = rid \<and> (status b = ''Pending'' \<or> status b = ''Confirmed'') \<and>
            dates_overlap ci co (check_in b) (check_out b)))"
  by (auto simp: check_availability_def select_active_bookings_def scan_rows_iff)

theorem check_availability_spec_witness:
  "\<not> check_availability (booked_db ''Confirmed'') 1 739041 739043
   \<and> check_availability (booked_db ''Confirmed'') 1 739042 739045
   \<and> check_availability (booked_db ''Confirmed'') 2 739041 739043
   \<and> check_availability (booked_db ''Cancelled'') 1 739041 739043"
  unfolding check_availability_spec
  by (simp add: ex_defs dates_overlap_def)

text \<open>
  C8, as the code has it: \<^verbatim>\<open>find_available_rooms\<close> returns exactly the rooms whose status
  is not Maintenance, that match the type filter when one is given (no filter, the empty
  string and "All" match every room), and for which \<^verbatim>\<open>check_availability\<close> holds, in table
  order, for every pair of dates: it never fails. The rejection of a check-out that is not
  after the check-in is made by its caller \<^verbatim>\<open>search\<close>, which fails exactly when
  \<open>end \<le> start\<close> and otherwise reports what \<^verbatim>\<open>find_available_rooms\<close> returned.
\<close>

theorem find_available_rooms_spec:
  "find_available_rooms db ci co rt =
     filter (\<lambda>r. room_status r \<noteq> ''Maintenance''
                \<and> (case rt of None \<Rightarrow> True | Some t \<Rightarrow> t = [] \<or> t = ''All'' \<or> room_type r = t)
                \<and> check_availability db (room_id r) ci co) (rooms db)
   \<and> (search db start end t = Failed Check_out_must_be_after_check_in) = (end \<le> start)
   \<and> (start < end \<longrightarrow>
        search db start end t =
          (if find_available_rooms db start end (Some t) = [] then Noticed No_rooms_available
           else Proceed (find_available_rooms db start end (Some t))))"
proof -
  have a: "find_available_rooms db ci co rt =
     filter (\<lambda>r. room_status r \<noteq> ''Maintenance''
                \<and> (case rt of None \<Rightarrow> True | Some t \<Rightarrow> t = [] \<or> t = ''All'' \<or> room_type r = t)
                \<and> check_availability db (room_id r) ci co) (rooms db)"
  proof (cases rt)
    case None
    then show ?thesis
      by (simp add: find_available_rooms_def select_rooms_def collect_available_filter conj_commute)
  next
    case (Some t)
    show ?thesis
    proof (cases "t \<noteq> [] \<and> t \<noteq> ''All''")
      case True
      then show ?thesis using Some
        by (auto simp: find_available_rooms_def select_rooms_def collect_available_filter
            intro!: filter_cong)
    next
      case False
      then show ?thesis using Some
        by (auto simp: find_available_rooms_def select_rooms_def collect_available_filter
            intro!: filter_cong)
    qed
  qed
  have b: "(search db start end t = Failed Check_out_must_be_after_check_in) = (end \<le> start)"
    by (simp add: search_def Let_def)
  have c: "start < end \<longrightarrow>
        search db start end t =
          (if find_available_rooms db start end (Some t) = [] then Noticed No_rooms_available
           else Proceed (find_available_rooms db start end (Some t)))"
    by (simp add: search_def Let_def)
  from a b c show ?thesis by blast
qed

theorem find_available_rooms_spec_witness:
  "map room_id (find_available_rooms (booked_db ''Confirmed'') 739041 739043 (Some ''Single'')) = [3, 8]
   \<and> map room_id (find_available_rooms (booked_db ''Confirmed'') 739042 739045 (Some ''All'')) = [1, 2, 3, 4, 5, 6, 7, 8]
   \<and> search (booked_db ''Confirmed'') 739043 739041 ''All'' = Failed Check_out_must_be_after_check_in
   \<and> search (booked_db ''Confirmed'') 739041 739043 ''Single''
       = Proceed (find_available_rooms (booked_db ''Confirmed'') 739041 739043 (Some ''Single''))"
proof -
  have a: "map room_id (find_available_rooms (booked_db ''Confirmed'') 739041 739043 (Some ''Single'')) = [3, 8]"
    unfolding find_available_rooms_spec [THEN conjunct1]
    by (simp add: check_availability_def select_active_bookings_def dates_overlap_def ex_defs)
  have b: "map room_id (find_available_rooms (booked_db ''Confirmed'') 739042 739045 (Some ''All'')) = [1, 2, 3, 4, 5, 6, 7, 8]"
    unfolding find_available_rooms_spec [THEN conjunct1]
    by (simp add: check_availability_def select_active_bookings_def dates_overlap_def ex_defs)
  from a have ne: "find_available_rooms (booked_db ''Confirmed'') 739041 739043 (Some ''Single'') \<noteq> []"
    by auto
  from find_available_rooms_spec [of "booked_db ''Confirmed''" 0 0 None 739043 739041 "''All''"]
  have c: "search (booked_db ''Confirmed'') 739043 739041 ''All'' = Failed Check_out_must_be_after_check_in"
    by simp
  from find_available_rooms_spec [of "booked_db ''Confirmed''" 0 0 None 739041 739043 "''Single''"] ne
  have d: "search (booked_db ''Confirmed'') 739041 739043 ''Single''
       = Proceed (find_available_rooms (booked_db ''Confirmed'') 739041 739043 (Some ''Single''))"
    by simp
  from a b c d show ?thesis by blast
qed

lemmas cancel_defs = cancel_booking_def update_booking_status_def find_available_rooms_def
  select_rooms_def check_availability_def select_active_bookings_def dates_overlap_def

text \<open>
  \<^verbatim>\<open>find_available_rooms\<close> itself has no range check: with the check-out four days before
  the check-in, and with an empty stay, it returns all three rooms.
\<close>

theorem find_available_rooms_no_range_check:
  "(739038::int) \<le> 739042
   \<and> map room_number (find_available_rooms seeded_db 739042 739038 None) = [''101'', ''102'', ''103'', ''201'', ''202'', ''203'', ''301'', ''302'']
   \<and> map room_number (find_available_rooms (booked_db ''Confirmed'') 739042 739042 None)
       = [''101'', ''102'', ''103'', ''201'', ''202'', ''203'', ''301'', ''302'']"
  by (simp add: cancel_defs ex_defs)

section \<open>The invariant of the bookings\<close>


lemma no_double_booking_snoc:
  "no_double_booking (bs @ [n]) = (no_double_booking bs \<and> list_all (\<lambda>c. \<not> conflicting c n) bs)"
  by (induction bs) auto

lemma no_double_booking_sorted_wrt:
  "no_double_booking bs = sorted_wrt (\<lambda>a b. \<not> conflicting a b) bs"
  by (induction bs) (simp_all add: list_all_iff)

lemma no_double_booking_nth:
  "no_double_booking bs =
     (\<forall>i j. i < j \<longrightarrow> j < length bs \<longrightarrow> \<not> conflicting (bs ! i) (bs ! j))"
  by (simp add: no_double_booking_sorted_wrt sorted_wrt_iff_nth_less)


lemma available_no_conflict:
  assumes "check_availability db rid ci co"
  shows "list_all (\<lambda>c. \<not> conflicting c
            \<lparr>booking_id = bid, customer_id = cust, booked_room = rid,
             check_in = ci, check_out = co, status = st\<rparr>) (bookings db)"
proof -
  have "\<not> conflicting c
            \<lparr>booking_id = bid, customer_id = cust, booked_room = rid,
             check_in = ci, check_out = co, status = st\<rparr>" if "c \<in> set (bookings db)" for c
  proof
    assume "conflicting c
            \<lparr>booking_id = bid, customer_id = cust, booked_room = rid,
             check_in = ci, check_out = co, status = st\<rparr>"
    then have "booked_room c = rid" and "status c = ''Pending'' \<or> status c = ''Confirmed''"
      and "dates_overlap ci co (check_in c) (check_out c)"
      by (simp_all add: conflicting_def active_def dates_overlap_def)
    with that assms show False
      unfolding check_availability_iff by blast
  qed
  then show ?thesis by (simp add: list_all_iff)
qed

lemma book_selected_bookings:
  "bookings (fst (book_selected db cust sel start end)) =
     (case sel of
        None \<Rightarrow> bookings db
      | Some rid \<Rightarrow>
          if check_availability db rid start end
          then bookings db @
                 [\<lparr>booking_id = next_rowid (bookings_seq db) (map booking_id (bookings db)),
                   customer_id = cust, booked_room = rid,
                   check_in = start, check_out = end, status = ''Pending''\<rparr>]
          else bookings db)"
  by (simp add: book_selected_def create_booking_def Let_def split: option.splits)

lemma book_selected_preserves:
  assumes "no_double_booking (bookings db)"
  shows "no_double_booking (bookings (fst (book_selected db cust sel start end)))"
proof (cases sel)
  case None
  with assms show ?thesis by (simp add: book_selected_bookings)
next
  case (Some rid)
  show ?thesis
  proof (cases "check_availability db rid start end")
    case True
    from available_no_conflict [OF True] assms show ?thesis
      by (simp add: book_selected_bookings Some True no_double_booking_snoc)
  next
    case False
    with assms show ?thesis by (simp add: book_selected_bookings Some)
  qed
qed

lemma create_booking_bookings:
  "bookings (fst (create_booking db cust rid start end)) =
     bookings db @
       [\<lparr>booking_id = next_rowid (bookings_seq db) (map booking_id (bookings db)),
         customer_id = cust, booked_room = rid,
         check_in = start, check_out = end, status = ''Pending''\<rparr>]"
  by (simp add: create_booking_def Let_def)

lemma create_booking_preserves:
  assumes "no_double_booking (bookings db)" and "check_availability db rid start end"
  shows "no_double_booking (bookings (fst (create_booking db cust rid start end)))"
  using available_no_conflict [OF assms(2)] assms(1)
  by (simp add: create_booking_bookings no_double_booking_snoc)

lemma still_available_check:
  assumes "still_available reqs clean st"
  shows "still_available reqs (i # clean) (step reqs st (Check i))"
proof -
  obtain db passed where st: "st = (db, passed)" by (cases st)
  obtain cust rid start "end" where req: "reqs ! i = (cust, rid, start, end)"
    by (cases "reqs ! i") auto
  from assms have inv: "no_double_booking (bookings db)"
    and old: "\<forall>j\<in>set passed. j \<in> set clean \<longrightarrow> j < length reqs \<longrightarrow>
                (case reqs ! j of (cust, rid, start, end) \<Rightarrow> check_availability db rid start end)"
    by (simp_all add: still_available_def st list_all_iff)
  show ?thesis
  proof (cases "i < length reqs")
    case False
    with inv old show ?thesis
      by (simp add: still_available_def st list_all_iff)
  next
    case True
    show ?thesis
    proof (cases "check_availability db rid start end")
      case True
      with \<open>i < length reqs\<close> inv old req show ?thesis
        by (simp add: still_available_def st list_all_iff)
    next
      case False
      with \<open>i < length reqs\<close> inv old req show ?thesis
        by (simp add: still_available_def st list_all_iff)
    qed
  qed
qed

lemma still_available_insert:
  assumes "still_available reqs clean st" and "i \<in> set clean"
  shows "still_available reqs [] (step reqs st (Insert i))"
proof -
  obtain db passed where st: "st = (db, passed)" by (cases st)
  obtain cust rid start "end" where req: "reqs ! i = (cust, rid, start, end)"
    by (cases "reqs ! i") auto
  from assms(1) have inv: "no_double_booking (bookings db)"
    and old: "\<forall>j\<in>set passed. j \<in> set clean \<longrightarrow> j < length reqs \<longrightarrow>
                (case reqs ! j of (cust, rid, start, end) \<Rightarrow> check_availability db rid start end)"
    by (simp_all add: still_available_def st list_all_iff)
  show ?thesis
  proof (cases "i < length reqs \<and> i \<in> set passed")
    case False
    with inv show ?thesis
      by (auto simp: still_available_def st list_all_iff)
  next
    case True
    with old assms(2) req have "check_availability db rid start end" by auto
    with inv have "no_double_booking (bookings (fst (create_booking db cust rid start end)))"
      by (rule create_booking_preserves)
    with True req show ?thesis
      by (simp add: still_available_def st list_all_iff)
  qed
qed

lemma exclusive_preserves:
  "exclusive clean evs \<Longrightarrow> still_available reqs clean st \<Longrightarrow>
   no_double_booking (bookings (fst (run reqs st evs)))"
proof (induction evs arbitrary: clean st)
  case Nil
  then show ?case by (simp add: still_available_def)
next
  case (Cons ev evs)
  show ?case
  proof (cases ev)
    case (Check i)
    from Cons.prems(1) have "exclusive (i # clean) evs" by (simp add: Check)
    moreover from Cons.prems(2) have "still_available reqs (i # clean) (step reqs st (Check i))"
      by (rule still_available_check)
    ultimately show ?thesis unfolding Check run.simps by (rule Cons.IH)
  next
    case (Insert i)
    from Cons.prems(1) have mem: "i \<in> set clean" and rest: "exclusive [] evs"
      by (simp_all add: Insert)
    from Cons.prems(2) mem have "still_available reqs [] (step reqs st (Insert i))"
      by (rule still_available_insert)
    with rest show ?thesis unfolding Insert run.simps by (rule Cons.IH)
  qed
qed

lemma exclusive_serial: "exclusive [] (serial ns)"
  by (induction ns) simp_all

lemma check_insert_book_selected:
  assumes "i < length reqs" and "reqs ! i = (cust, rid, start, end)"
  shows "fst (run reqs (db, []) [Check i, Insert i]) = fst (book_selected db cust (Some rid) start end)"
proof (cases "check_availability db rid start end")
  case True
  with assms show ?thesis
    by (simp add: book_selected_def split: prod.splits option.splits)
next
  case False
  with assms show ?thesis
    by (simp add: book_selected_def)
qed

text \<open>
  C1, as the code has it: the bookings of a room whose status is Pending or Confirmed stay
  pairwise non-overlapping on their half-open stays (\<open>no_double_booking\<close>) under every
  schedule of booking requests in which no request inserts on an availability check that
  another request's insert has followed; so under any sequence of requests handled one
  after the other (\<open>serial\<close>), each of them a run of \<^verbatim>\<open>book_selected\<close>, and in
  particular whatever is booked in this way starting from the empty table. The last part
  spells \<open>no_double_booking\<close> out: no two rows at different positions are both active, on
  the same room and overlapping.
\<close>

theorem no_double_booking_invariant:
  "(exclusive [] evs \<and> no_double_booking (bookings db) \<longrightarrow>
      no_double_booking (bookings (fst (run reqs (db, []) evs))))
   \<and> (exclusive [] evs \<longrightarrow> no_double_booking (bookings (fst (run reqs (empty_db, []) evs))))
   \<and> exclusive [] (serial ns)
   \<and> (i < length reqs \<and> reqs ! i = (cust, rid, start, end) \<longrightarrow>
        fst (run reqs (db, []) [Check i, Insert i])
          = fst (book_selected db cust (Some rid) start end))
   \<and> no_double_booking bs =
       (\<forall>k l. k < l \<longrightarrow> l < length bs \<longrightarrow>
          \<not> (booked_room (bs ! k) = booked_room (bs ! l) \<and> active (bs ! k) \<and> active (bs ! l) \<and>
             dates_overlap (check_in (bs ! k)) (check_out (bs ! k))
               (check_in (bs ! l)) (check_out (bs ! l))))"
proof -
  have start: "still_available reqs [] (d, [])" if "no_double_booking (bookings d)" for d
    using that by (simp add: still_available_def)
  have a: "no_double_booking (bookings (fst (run reqs (db, []) evs)))"
    if "exclusive [] evs" and "no_double_booking (bookings db)"
    using that(1) start [OF that(2)] by (rule exclusive_preserves)
  have "no_double_booking (bookings empty_db)" by (simp add: empty_db_def)
  then have b: "no_double_booking (bookings (fst (run reqs (empty_db, []) evs)))"
    if "exclusive [] evs"
    using that start by (blast intro: exclusive_preserves)
  have c: "fst (run reqs (db, []) [Check i, Insert i])
          = fst (book_selected db cust (Some rid) start end)"
    if "i < length reqs" and "reqs ! i = (cust, rid, start, end)"
    using that by (rule check_insert_book_selected)
  have d: "no_double_booking bs =
       (\<forall>k l. k < l \<longrightarrow> l < length bs \<longrightarrow>
          \<not> (booked_room (bs ! k) = booked_room (bs ! l) \<and> active (bs ! k) \<and> active (bs ! l) \<and>
             dates_overlap (check_in (bs ! k)) (check_out (bs ! k))
               (check_in (bs ! l)) (check_out (bs ! l))))"
    unfolding no_double_booking_nth conflicting_def ..
  from a b c d exclusive_serial [of ns] show ?thesis by blast
qed

lemmas run_defs = book_selected_def create_booking_def check_availability_def
  select_active_bookings_def next_rowid_def dates_overlap_def Let_def

theorem no_double_booking_invariant_witness:
  "exclusive [] (serial [0, 1, 2])
   \<and> no_double_booking (bookings seeded_db)
   \<and> no_double_booking (bookings (fst (run
         [(7, 1, 739038, 739042), (8, 1, 739041, 739043), (9, 1, 739042, 739045)]
         (seeded_db, []) (serial [0, 1, 2]))))
   \<and> map booking_id (bookings (fst (run
         [(7, 1, 739038, 739042), (8, 1, 739041, 739043), (9, 1, 739042, 739045)]
         (seeded_db, []) (serial [0, 1, 2]))))
       = [1, 2]"
proof -
  have start: "no_double_booking (bookings seeded_db)"
    by (simp add: seeded_db_def empty_db_def)
  have ids: "map booking_id (bookings (fst (run
         [(7, 1, 739038, 739042), (8, 1, 739041, 739043), (9, 1, 739042, 739045)]
         (seeded_db, []) (serial [0, 1, 2]))))
       = [1, 2]"
    by (simp add: run_defs seeded_db_def seed_rooms_def empty_db_def)
  note inst = no_double_booking_invariant [of "serial [0, 1, 2]" seeded_db
      "[(7, 1, 739038, 739042), (8, 1, 739041, 739043), (9, 1, 739042, 739045)]" "[0, 1, 2]"]
  from inst have excl: "exclusive [] (serial [0, 1, 2])" by blast
  from inst excl start have "no_double_booking (bookings (fst (run
         [(7, 1, 739038, 739042), (8, 1, 739041, 739043), (9, 1, 739042, 739045)]
         (seeded_db, []) (serial [0, 1, 2]))))"
    by blast
  with excl start ids show ?thesis by blast
qed

text \<open>
  Two requests for room 101 and the same three nights (2024-07-01 to 2024-07-04), both
  checked before either inserts: both checks pass and two overlapping Pending bookings are
  stored. And with every handler run alone, one after the other: a customer books the
  room, cancels, another customer books the same nights, and the staff sets the cancelled
  booking to Confirmed; two active bookings overlap.
\<close>

theorem double_booking_reachable:
  "check_availability seeded_db 1 739068 739071
   \<and> \<not> no_double_booking (bookings (fst (create_booking
            (fst (create_booking seeded_db 7 1 739068 739071)) 8 1 739068 739071)))
   \<and> \<not> no_double_booking (bookings (fst (run
            [(7, 1, 739068, 739071), (8, 1, 739068, 739071)]
            (seeded_db, []) [Check 0, Check 1, Insert 0, Insert 1])))
   \<and> no_double_booking (bookings (fst (book_selected
            (fst (cancel_booking (fst (book_selected seeded_db 7 (Some 1) 739068 739071))
                   (Some (1, ''Pending'')) True))
            8 (Some 1) 739068 739071)))
   \<and> \<not> no_double_booking (bookings (fst (set_status
            (fst (book_selected
                    (fst (cancel_booking (fst (book_selected seeded_db 7 (Some 1) 739068 739071))
                           (Some (1, ''Pending'')) True))
                    8 (Some 1) 739068 739071))
            (Some 1) ''Confirmed'')))"
  by (simp add: run_defs cancel_booking_def set_status_def update_booking_status_def
      conflicting_def active_def seeded_db_def seed_rooms_def empty_db_def)

section \<open>The booking request\<close>

lemma book_selected_unavailable:
  "\<not> check_availability db rid start end \<Longrightarrow>
   book_selected db cust (Some rid) start end = (db, Failed Room_no_longer_available)"
  by (simp add: book_selected_def)

lemma book_selected_proceeds:
  "check_availability db rid start end \<Longrightarrow> find (\<lambda>r. room_id r = rid) (rooms db) = Some r \<Longrightarrow>
   snd (book_selected db cust (Some rid) start end) =
     Proceed (next_rowid (bookings_seq db) (map booking_id (bookings db)),
              price_per_night r * real_of_int (end - start))"
  by (simp add: book_selected_def create_booking_def Let_def)

lemma new_booking_id_fresh:
  "list_all (\<lambda>b. booking_id b < next_rowid (bookings_seq db) (map booking_id (bookings db)))
     (bookings db)"
  by (simp add: list_all_iff next_rowid_fresh)

text \<open>
  C2, as the code has it: \<^verbatim>\<open>book_selected\<close> checks \<^verbatim>\<open>check_availability\<close> for the room
  and the dates immediately before the insert. When the check fails it reports that the
  room is no longer available and leaves the database as it is. When the check passes it
  inserts one booking with status Pending, under a key larger than every key of the table,
  for the customer, room and dates given, whatever the dates are; if the room is in the
  table it goes on with the new booking id and the total. It has no range check of its own:
  the dates are those of \<^verbatim>\<open>search\<close>, which refuses exactly when \<open>end \<le> start\<close>.
\<close>

theorem book_selected_spec:
  "(\<not> check_availability db rid start end \<longrightarrow>
      book_selected db cust (Some rid) start end = (db, Failed Room_no_longer_available))
   \<and> (check_availability db rid start end \<longrightarrow>
        bookings (fst (book_selected db cust (Some rid) start end)) =
          bookings db @
            [\<lparr>booking_id = next_rowid (bookings_seq db) (map booking_id (bookings db)),
              customer_id = cust, booked_room = rid,
              check_in = start, check_out = end, status = ''Pending''\<rparr>]
        \<and> list_all (\<lambda>b. booking_id b < next_rowid (bookings_seq db) (map booking_id (bookings db)))
             (bookings db)
        \<and> (find (\<lambda>r. room_id r = rid) (rooms db) = Some r \<longrightarrow>
             snd (book_selected db cust (Some rid) start end) =
               Proceed (next_rowid (bookings_seq db) (map booking_id (bookings db)),
                        price_per_night r * real_of_int (end - start))))
   \<and> (search db start end t = Failed Check_out_must_be_after_check_in) = (end \<le> start)"
proof -
  have a: "\<not> check_availability db rid start end \<longrightarrow>
      book_selected db cust (Some rid) start end = (db, Failed Room_no_longer_available)"
    by (simp add: book_selected_unavailable)
  have b: "bookings (fst (book_selected db cust (Some rid) start end)) =
          bookings db @
            [\<lparr>booking_id = next_rowid (bookings_seq db) (map booking_id (bookings db)),
              customer_id = cust, booked_room = rid,
              check_in = start, check_out = end, status = ''Pending''\<rparr>]"
    if "check_availability db rid start end"
    using that by (simp add: book_selected_bookings)
  have c: "(search db start end t = Failed Check_out_must_be_after_check_in) = (end \<le> start)"
    by (simp add: search_def Let_def)
  from a b c new_booking_id_fresh [of db] book_selected_proceeds [of db rid start "end" r cust]
  show ?thesis by blast
qed

theorem book_selected_spec_witness:
  "book_selected (booked_db ''Confirmed'') 8 (Some 1) 739041 739043
     = (booked_db ''Confirmed'', Failed Room_no_longer_available)
   \<and> bookings (fst (book_selected (booked_db ''Confirmed'') 8 (Some 1) 739042 739045))
     = [stay ''Confirmed'',
        \<lparr>booking_id = 2, customer_id = 8, booked_room = 1,
         check_in = 739042, check_out = 739045, status = ''Pending''\<rparr>]
   \<and> snd (book_selected (booked_db ''Confirmed'') 8 (Some 1) 739042 739045) = Proceed (2, 4500)
   \<and> search (booked_db ''Confirmed'') 739045 739042 ''All'' = Failed Check_out_must_be_after_check_in"
proof -
  have taken: "\<not> check_availability (booked_db ''Confirmed'') 1 739041 739043"
    and free: "check_availability (booked_db ''Confirmed'') 1 739042 739045"
    by (simp_all add: check_availability_def select_active_bookings_def dates_overlap_def ex_defs)
  have room: "find (\<lambda>r. room_id r = 1) (rooms (booked_db ''Confirmed'')) = Some (hd seed_rooms)"
    by (simp add: ex_defs)
  have vals: "next_rowid (bookings_seq (booked_db ''Confirmed''))
        (map booking_id (bookings (booked_db ''Confirmed''))) = 2"
    "bookings (booked_db ''Confirmed'') = [stay ''Confirmed'']"
    "price_per_night (hd seed_rooms) * real_of_int (739045 - 739042) = 4500"
    by (simp_all add: next_rowid_def ex_defs)
  from book_selected_spec [of "booked_db ''Confirmed''" 1 739041 739043 8 "hd seed_rooms" "''All''"] taken
  have one: "book_selected (booked_db ''Confirmed'') 8 (Some 1) 739041 739043
     = (booked_db ''Confirmed'', Failed Room_no_longer_available)"
    by blast
  from book_selected_spec [of "booked_db ''Confirmed''" 1 739042 739045 8 "hd seed_rooms" "''All''"]
    free room
  have two: "bookings (fst (book_selected (booked_db ''Confirmed'') 8 (Some 1) 739042 739045))
     = bookings (booked_db ''Confirmed'') @
        [\<lparr>booking_id = next_rowid (bookings_seq (booked_db ''Confirmed''))
             (map booking_id (bookings (booked_db ''Confirmed''))),
          customer_id = 8, booked_room = 1,
          check_in = 739042, check_out = 739045, status = ''Pending''\<rparr>]"
    and three: "snd (book_selected (booked_db ''Confirmed'') 8 (Some 1) 739042 739045)
      = Proceed (next_rowid (bookings_seq (booked_db ''Confirmed''))
             (map booking_id (bookings (booked_db ''Confirmed''))),
           price_per_night (hd seed_rooms) * real_of_int (739045 - 739042))"
    by blast+
  from book_selected_spec [of "booked_db ''Confirmed''" 1 739045 739042 8 "hd seed_rooms" "''All''"]
  have four: "search (booked_db ''Confirmed'') 739045 739042 ''All''
      = Failed Check_out_must_be_after_check_in"
    by simp
  note two' = two [unfolded vals(1), unfolded vals(2)]
  note three' = three [unfolded vals(1), unfolded vals(3)]
  from one two' three' four show ?thesis by simp
qed

text \<open>
  Neither \<^verbatim>\<open>book_selected\<close> nor \<^verbatim>\<open>create_booking\<close> rejects a check-out before the
  check-in, or a room id that is not in the table: in both cases the booking is inserted.
\<close>

theorem book_selected_no_range_no_room_check:
  "(739038::int) \<le> 739042
   \<and> snd (book_selected seeded_db 7 (Some 1) 739042 739038) = Proceed (1, - 6000)
   \<and> bookings (fst (book_selected seeded_db 7 (Some 1) 739042 739038))
       = [\<lparr>booking_id = 1, customer_id = 7, booked_room = 1,
           check_in = 739042, check_out = 739038, status = ''Pending''\<rparr>]
   \<and> find (\<lambda>r. room_id r = 99) (rooms seeded_db) = None
   \<and> snd (book_selected seeded_db 7 (Some 99) 739038 739042) = Failed TypeError
   \<and> bookings (fst (book_selected seeded_db 7 (Some 99) 739038 739042))
       = [\<lparr>booking_id = 1, customer_id = 7, booked_room = 99,
           check_in = 739038, check_out = 739042, status = ''Pending''\<rparr>]
   \<and> bookings (fst (create_booking empty_db 7 99 739042 739038))
       = [\<lparr>booking_id = 1, customer_id = 7, booked_room = 99,
           check_in = 739042, check_out = 739038, status = ''Pending''\<rparr>]"
  by (simp add: run_defs seeded_db_def seed_rooms_def empty_db_def)

section \<open>Recording a payment\<close>

lemma record_payment_bookings:
  "bookings (record_payment db bid amt mode) = update_booking_status (bookings db) bid ''Confirmed''"
  by (simp add: record_payment_def Let_def)

lemma record_payment_payments:
  "payments (record_payment db bid amt mode) =
     payments db @
       [\<lparr>payment_id = next_rowid (payments_seq db) (map payment_id (payments db)),
         paid_booking = bid, amount = amt, payment_mode = mode\<rparr>]"
  by (simp add: record_payment_def Let_def)

text \<open>
  C9: \<^verbatim>\<open>record_payment\<close> on a booking whose status is Pending makes it Confirmed, and a
  second \<^verbatim>\<open>record_payment\<close> on the same booking leaves it Confirmed.
\<close>

theorem record_payment_confirms:
  "shown_status db bid = Some ''Pending'' \<longrightarrow>
     shown_status (record_payment db bid a1 m1) bid = Some ''Confirmed''
     \<and> shown_status (record_payment (record_payment db bid a1 m1) bid a2 m2) bid = Some ''Confirmed''
     \<and> list_all (\<lambda>b. booking_id b = bid \<longrightarrow> status b = ''Confirmed'')
          (bookings (record_payment db bid a1 m1))
     \<and> list_all (\<lambda>b. booking_id b = bid \<longrightarrow> status b = ''Confirmed'')
          (bookings (record_payment (record_payment db bid a1 m1) bid a2 m2))"
proof
  assume pending: "shown_status db bid = Some ''Pending''"
  have one: "shown_status (record_payment db bid a1 m1) bid = Some ''Confirmed''"
    using shown_status_bookings [OF record_payment_bookings, of db bid a1 m1] pending by simp
  have two: "shown_status (record_payment (record_payment db bid a1 m1) bid a2 m2) bid
      = Some ''Confirmed''"
    using shown_status_bookings [OF record_payment_bookings, of "record_payment db bid a1 m1" bid a2 m2]
      one by simp
  have rows: "list_all (\<lambda>b. booking_id b = bid \<longrightarrow> status b = ''Confirmed'')
      (bookings (record_payment d bid a m))" for d a m
    unfolding record_payment_bookings by (rule updated_rows_status)
  from one two rows show "shown_status (record_payment db bid a1 m1) bid = Some ''Confirmed''
     \<and> shown_status (record_payment (record_payment db bid a1 m1) bid a2 m2) bid = Some ''Confirmed''
     \<and> list_all (\<lambda>b. booking_id b = bid \<longrightarrow> status b = ''Confirmed'')
          (bookings (record_payment db bid a1 m1))
     \<and> list_all (\<lambda>b. booking_id b = bid \<longrightarrow> status b = ''Confirmed'')
          (bookings (record_payment (record_payment db bid a1 m1) bid a2 m2))"
    by blast
qed

theorem record_payment_confirms_witness:
  "shown_status (booked_db ''Pending'') 1 = Some ''Pending''
   \<and> shown_status (record_payment (booked_db ''Pending'') 1 6000 ''Card'') 1 = Some ''Confirmed''
   \<and> shown_status (record_payment (record_payment (booked_db ''Pending'') 1 6000 ''Card'')
         1 6000 ''UPI'') 1 = Some ''Confirmed''"
proof -
  have pending: "shown_status (booked_db ''Pending'') 1 = Some ''Pending''"
    by (simp add: shown_status_def ex_defs)
  with record_payment_confirms [of "booked_db ''Pending''" 1 6000 "''Card''" 6000 "''UPI''"]
  show ?thesis by blast
qed

text \<open>
  C4, as the code has it: \<^verbatim>\<open>record_payment\<close> tests nothing. For every booking id,
  amount and mode it appends one payment row; it never fails. The refusal to pay a
  cancelled booking is made before it, by \<^verbatim>\<open>pay_pending\<close>, which opens no payment
  window for a row shown as Cancelled; \<^verbatim>\<open>do_pay\<close> then records the payment for any mode
  chosen.
\<close>

theorem record_payment_spec:
  "payments (record_payment db bid amt mode) =
     payments db @
       [\<lparr>payment_id = next_rowid (payments_seq db) (map payment_id (payments db)),
         paid_booking = bid, amount = amt, payment_mode = mode\<rparr>]
   \<and> pay_pending db (Some (bid, ''Cancelled'', paid)) =
       (if paid = ''Paid'' then Noticed Booking_already_paid
        else Noticed Cannot_pay_for_cancelled_booking)
   \<and> (mode \<noteq> [] \<longrightarrow>
        do_pay db bid amt mode = (record_payment db bid amt mode, Noticed Payment_successful))"
  by (simp add: record_payment_payments pay_pending_def do_pay_def)

theorem record_payment_spec_witness:
  "payments (record_payment (booked_db ''Pending'') 1 6000 ''Card'')
     = [\<lparr>payment_id = 1, paid_booking = 1, amount = 6000, payment_mode = ''Card''\<rparr>]
   \<and> pay_pending (booked_db ''Cancelled'') (Some (1, ''Cancelled'', ''Pending''))
     = Noticed Cannot_pay_for_cancelled_booking
   \<and> do_pay (booked_db ''Pending'') 1 6000 ''Card''
     = (record_payment (booked_db ''Pending'') 1 6000 ''Card'', Noticed Payment_successful)"
proof -
  have vals: "payments (booked_db ''Pending'') = []"
    "next_rowid (payments_seq (booked_db ''Pending'')) (map payment_id []) = 1"
    by (simp_all add: next_rowid_def ex_defs)
  from record_payment_spec [of "booked_db ''Pending''" 1 6000 "''Card''" "''Pending''"]
  have one: "payments (record_payment (booked_db ''Pending'') 1 6000 ''Card'')
     = payments (booked_db ''Pending'') @
       [\<lparr>payment_id = next_rowid (payments_seq (booked_db ''Pending''))
           (map payment_id (payments (booked_db ''Pending''))),
         paid_booking = 1, amount = 6000, payment_mode = ''Card''\<rparr>]"
    and three: "do_pay (booked_db ''Pending'') 1 6000 ''Card''
     = (record_payment (booked_db ''Pending'') 1 6000 ''Card'', Noticed Payment_successful)"
    by simp_all
  from record_payment_spec [of "booked_db ''Cancelled''" 1 6000 "''Card''" "''Pending''"]
  have two: "pay_pending (booked_db ''Cancelled'') (Some (1, ''Cancelled'', ''Pending''))
     = Noticed Cannot_pay_for_cancelled_booking"
    by simp
  note one' = one [unfolded vals(1), unfolded vals(2)]
  from one' two three show ?thesis by simp
qed

text \<open>
  \<^verbatim>\<open>record_payment\<close> with a negative amount on a Cancelled booking appends the payment
  (and sets the booking to Confirmed); with amount zero on a booking id that is not in
  the table it appends the payment as well.
\<close>

theorem record_payment_no_validation:
  "payments (record_payment (booked_db ''Cancelled'') 1 (- 5) ''Card'')
     = [\<lparr>payment_id = 1, paid_booking = 1, amount = - 5, payment_mode = ''Card''\<rparr>]
   \<and> bookings (record_payment (booked_db ''Cancelled'') 1 (- 5) ''Card'') = [stay ''Confirmed'']
   \<and> shown_status seeded_db 99 = None
   \<and> payments (record_payment seeded_db 99 0 ''Cash'')
     = [\<lparr>payment_id = 1, paid_booking = 99, amount = 0, payment_mode = ''Cash''\<rparr>]"
  by (simp add: record_payment_def update_booking_status_def next_rowid_def shown_status_def
      Let_def ex_defs)

section \<open>Cancellation\<close>






section \<open>Status changes by the staff\<close>

lemma set_status_bookings:
  "new_status \<noteq> [] \<Longrightarrow>
   bookings (fst (set_status db (Some bid) new_status)) =
     update_booking_status (bookings db) bid new_status"
  by (simp add: set_status_def)

text \<open>
  C3, as the code has it: \<^verbatim>\<open>set_status\<close> applies no transition rule. Whatever the
  current status of the selected booking (Completed and Cancelled included) and whichever
  status is chosen, it stores the chosen status in the rows with the selected id, leaves
  all other rows and all keys as they are, and reports success; the one refusal is for no
  status chosen at all.
\<close>

theorem set_status_spec:
  "new_status \<noteq> [] \<longrightarrow>
     snd (set_status db (Some bid) new_status) = Noticed Status_updated_successfully
     \<and> shown_status (fst (set_status db (Some bid) new_status)) bid
         = map_option (\<lambda>_. new_status) (shown_status db bid)
     \<and> list_all (\<lambda>b. booking_id b = bid \<longrightarrow> status b = new_status)
          (bookings (fst (set_status db (Some bid) new_status)))
     \<and> filter (\<lambda>b. booking_id b \<noteq> bid) (bookings (fst (set_status db (Some bid) new_status)))
         = filter (\<lambda>b. booking_id b \<noteq> bid) (bookings db)
     \<and> map booking_id (bookings (fst (set_status db (Some bid) new_status)))
         = map booking_id (bookings db)"
proof
  assume chosen: "new_status \<noteq> []"
  note rows = set_status_bookings [OF chosen, of db bid]
  have msg: "snd (set_status db (Some bid) new_status) = Noticed Status_updated_successfully"
    using chosen by (simp add: set_status_def)
  have shown: "shown_status (fst (set_status db (Some bid) new_status)) bid
         = map_option (\<lambda>_. new_status) (shown_status db bid)"
    using rows by (rule shown_status_bookings)
  from msg shown
  show "snd (set_status db (Some bid) new_status) = Noticed Status_updated_successfully
     \<and> shown_status (fst (set_status db (Some bid) new_status)) bid
         = map_option (\<lambda>_. new_status) (shown_status db bid)
     \<and> list_all (\<lambda>b. booking_id b = bid \<longrightarrow> status b = new_status)
          (bookings (fst (set_status db (Some bid) new_status)))
     \<and> filter (\<lambda>b. booking_id b \<noteq> bid) (bookings (fst (set_status db (Some bid) new_status)))
         = filter (\<lambda>b. booking_id b \<noteq> bid) (bookings db)
     \<and> map booking_id (bookings (fst (set_status db (Some bid) new_status)))
         = map booking_id (bookings db)"
    unfolding rows by (simp add: updated_rows_status updated_other_rows updated_keys)
qed

theorem set_status_spec_witness:
  "snd (set_status (booked_db ''Completed'') (Some 1) ''Pending'') = Noticed Status_updated_successfully
   \<and> shown_status (booked_db ''Completed'') 1 = Some ''Completed''
   \<and> shown_status (fst (set_status (booked_db ''Completed'') (Some 1) ''Pending'')) 1 = Some ''Pending''"
proof -
  have before: "shown_status (booked_db ''Completed'') 1 = Some ''Completed''"
    by (simp add: shown_status_def ex_defs)
  have chosen: "''Pending'' \<noteq> []" by simp
  from set_status_spec [of "''Pending''" "booked_db ''Completed''" 1] chosen
  have "snd (set_status (booked_db ''Completed'') (Some 1) ''Pending'') = Noticed Status_updated_successfully"
    and "shown_status (fst (set_status (booked_db ''Completed'') (Some 1) ''Pending'')) 1
         = map_option (\<lambda>_. ''Pending'') (shown_status (booked_db ''Completed'') 1)"
    by blast+
  with before show ?thesis by simp
qed

text \<open>
  A Cancelled booking is set to Confirmed and a Completed one to Pending, with the message
  of success; a Confirmed booking is set back to Pending.
\<close>

theorem set_status_out_of_terminal_status:
  "set_status (booked_db ''Cancelled'') (Some 1) ''Confirmed''
     = (booked_db ''Confirmed'', Noticed Status_updated_successfully)
   \<and> set_status (booked_db ''Completed'') (Some 1) ''Pending''
     = (booked_db ''Pending'', Noticed Status_updated_successfully)
   \<and> set_status (booked_db ''Confirmed'') (Some 1) ''Pending''
     = (booked_db ''Pending'', Noticed Status_updated_successfully)"
  by (simp add: set_status_def update_booking_status_def ex_defs)

end
